theory Spec2Isabelle
  imports Complex_Main "HOL-Library.Monad_Syntax"
begin

section \<open>JavaScript values at the hub's boundary\<close>

text \<open>
  The lyric payload, and the result of the renderer query, are typed \<^verbatim>\<open>any\<close> in
  \<^verbatim>\<open>websocket.ts\<close>. They are modelled as a datatype of JavaScript values. A number is
  an exact real, \<^verbatim>\<open>NaN\<close> or an infinity: the rounding of IEEE doubles is not modelled, and
  \<^verbatim>\<open>-0\<close> is identified with \<^verbatim>\<open>0\<close> (the code only tests \<^verbatim>\<open>idx >= 0\<close> and \<^verbatim>\<open>isNaN\<close>, which
  do not tell them apart). A string is a list of code units of the Latin-1 range. An
  object is given by the properties that can be read from it, first binding first.
\<close>

datatype jsnum = NaN | PosInf | NegInf | Fin real

datatype jsval =
    JUndefined
  | JNull
  | JBool bool
  | JNum jsnum
  | JStr string
  | JObj "(string \<times> jsval) list"

text \<open>
  What the JavaScript runtime does and the repository does not define: reading a number
  out of a string, printing a number, and converting an object to a primitive (which
  throws a \<^verbatim>\<open>TypeError\<close> when neither \<^verbatim>\<open>valueOf\<close> nor \<^verbatim>\<open>toString\<close> yields one:
  \<open>None\<close>). Every function below takes the runtime as a parameter.
\<close>

record runtime =
  StringToNumber :: "string \<Rightarrow> jsnum"
  NumberToString :: "jsnum \<Rightarrow> string"
  ObjectToNumber :: "(string \<times> jsval) list \<Rightarrow> jsnum option"
  ObjectToString :: "(string \<times> jsval) list \<Rightarrow> string option"

text \<open>\<^verbatim>\<open>a ?? b\<close>\<close>

fun nullish :: "jsval \<Rightarrow> bool" where
  "nullish JUndefined = True"
| "nullish JNull = True"
| "nullish _ = False"

definition coalesce :: "jsval \<Rightarrow> jsval \<Rightarrow> jsval" where
  "coalesce a b = (if nullish a then b else a)"

text \<open>
  \<^verbatim>\<open>v?.k\<close>, and \<^verbatim>\<open>v.k\<close> on a value that is not nullish: \<^verbatim>\<open>undefined\<close> on a nullish value and
  on a primitive (none of the keys read here is a property of a primitive's prototype),
  the property's value on an object.
\<close>

fun get :: "jsval \<Rightarrow> string \<Rightarrow> jsval" where
  "get (JObj fs) k = (case map_of fs k of None \<Rightarrow> JUndefined | Some v \<Rightarrow> v)"
| "get _ k = JUndefined"

text \<open>\<^verbatim>\<open>Number(v)\<close> and \<^verbatim>\<open>String(v)\<close>; \<open>None\<close> is a thrown \<^verbatim>\<open>TypeError\<close>.\<close>

fun Number :: "runtime \<Rightarrow> jsval \<Rightarrow> jsnum option" where
  "Number rt JUndefined = Some NaN"
| "Number rt JNull = Some (Fin 0)"
| "Number rt (JBool b) = Some (Fin (if b then 1 else 0))"
| "Number rt (JNum n) = Some n"
| "Number rt (JStr s) = Some (StringToNumber rt s)"
| "Number rt (JObj fs) = ObjectToNumber rt fs"

fun String' :: "runtime \<Rightarrow> jsval \<Rightarrow> string option" where
  "String' rt JUndefined = Some ''undefined''"
| "String' rt JNull = Some ''null''"
| "String' rt (JBool b) = Some (if b then ''true'' else ''false'')"
| "String' rt (JNum n) = Some (NumberToString rt n)"
| "String' rt (JStr s) = Some s"
| "String' rt (JObj fs) = ObjectToString rt fs"

definition isNaN :: "jsnum \<Rightarrow> bool" where
  "isNaN n = (n = NaN)"

text \<open>\<^verbatim>\<open>n >= 0\<close>\<close>

fun ge_zero :: "jsnum \<Rightarrow> bool" where
  "ge_zero NaN = False"
| "ge_zero PosInf = True"
| "ge_zero NegInf = False"
| "ge_zero (Fin r) = (0 \<le> r)"

fun typeof :: "jsval \<Rightarrow> string" where
  "typeof JUndefined = ''undefined''"
| "typeof JNull = ''object''"
| "typeof (JBool b) = ''boolean''"
| "typeof (JNum n) = ''number''"
| "typeof (JStr s) = ''string''"
| "typeof (JObj fs) = ''object''"

text \<open>The truthiness of a value, as \<^verbatim>\<open>if (res)\<close> tests it.\<close>

fun truthy :: "jsval \<Rightarrow> bool" where
  "truthy JUndefined = False"
| "truthy JNull = False"
| "truthy (JBool b) = b"
| "truthy (JNum n) = (n \<noteq> NaN \<and> n \<noteq> Fin 0)"
| "truthy (JStr s) = (s \<noteq> [])"
| "truthy (JObj fs) = True"

subsection \<open>Strings: \<^verbatim>\<open>split(/[&,]/)\<close> and \<^verbatim>\<open>trim()\<close>\<close>

text \<open>
  \<^verbatim>\<open>s.split(re)\<close> for a pattern that matches one code unit: the pieces between the
  matches, an empty piece between two adjacent matches and at either end.
\<close>

fun split :: "(char \<Rightarrow> bool) \<Rightarrow> string \<Rightarrow> string list" where
  "split sep [] = [[]]"
| "split sep (c # cs) =
     (if sep c then [] # split sep cs
      else (case split sep cs of [] \<Rightarrow> [[c]] | w # ws \<Rightarrow> (c # w) # ws))"

definition amp_or_comma :: "char \<Rightarrow> bool" where
  "amp_or_comma c = (c = CHR ''&'' \<or> c = CHR '','')"

text \<open>
  The white space and line terminators of ECMAScript that fit a Latin-1 code unit:
  TAB, LF, VT, FF, CR, SP and NBSP.
\<close>

definition white_space :: "char \<Rightarrow> bool" where
  "white_space c =
     (c = CHR 0x09 \<or> c = CHR 0x0A \<or> c = CHR 0x0B \<or> c = CHR 0x0C \<or> c = CHR 0x0D \<or>
      c = CHR 0x20 \<or> c = CHR 0xA0)"

definition trim :: "string \<Rightarrow> string" where
  "trim s = rev (dropWhile white_space (rev (dropWhile white_space s)))"

section \<open>The data of \<^verbatim>\<open>websocket.ts\<close>\<close>

text \<open>
  \<^verbatim>\<open>SongInfo\<close> is imported from the song-info provider; these are the fields that
  \<^verbatim>\<open>websocket.ts\<close> reads. \<^verbatim>\<open>isPaused\<close> and \<^verbatim>\<open>elapsedSeconds\<close> may be undefined (the code
  reads them through \<^verbatim>\<open>??\<close>).
\<close>

record SongInfo =
  title :: string
  artist :: string
  videoId :: string
  isPaused :: "bool option"
  elapsedSeconds :: "jsnum option"

text \<open>The \<^verbatim>\<open>song\<close> object of a lyric line: \<^verbatim>\<open>{title, artists, videoId}\<close>.\<close>

record LyricSong =
  title' :: string
  artists :: "string list"
  videoId' :: string

text \<open>
  The object that \<^verbatim>\<open>normalizeLyric\<close> builds, and that the current-lyric route builds
  from the renderer's answer (there \<^verbatim>\<open>index\<close>, \<^verbatim>\<open>text\<close> and \<^verbatim>\<open>timestamp\<close> are whatever the
  renderer returned). \<open>song' = None\<close> is \<^verbatim>\<open>song: undefined\<close>.
\<close>

record LyricLine =
  index :: jsval
  text' :: jsval
  timeInMs :: jsnum
  duration :: jsnum
  isSynced :: bool
  song' :: "LyricSong option"
  timestamp :: jsval
  provider :: jsval
  romanized :: jsval

section \<open>The lyric normalizer\<close>

text \<open>
  The expression that both \<^verbatim>\<open>normalizeLyric\<close> (line 185) and the current-lyric route
  (line 127) write for \<^verbatim>\<open>song\<close>: undefined without a song, else the title and video id
  as they are and the artist string split on \<^verbatim>\<open>&\<close> or \<^verbatim>\<open>,\<close> with each piece trimmed
  (\<^verbatim>\<open>[]\<close> for an empty artist string, which is falsy).
\<close>

definition songOf :: "SongInfo option \<Rightarrow> LyricSong option" where
  "songOf sng =
     (case sng of
        None \<Rightarrow> None
      | Some s \<Rightarrow>
          Some \<lparr> title' = title s,
                 artists = (if artist s \<noteq> [] then map trim (split amp_or_comma (artist s)) else []),
                 videoId' = videoId s \<rparr>)"

text \<open>
  A runtime for the examples. It reads a blank string as \<open>0\<close> and a plain object as
  \<^verbatim>\<open>NaN\<close>, and prints a plain object as \<^verbatim>\<open>[object Object]\<close>, as JavaScript does; it reads
  no other string as a number and prints every number as \<^verbatim>\<open>NaN\<close>, so the examples coerce
  no numeric string and print no number.
\<close>

definition sample_runtime :: runtime where
  "sample_runtime =
     \<lparr> StringToNumber = (\<lambda>s. if list_all white_space s then Fin 0 else NaN),
       NumberToString = (\<lambda>n. ''NaN''),
       ObjectToNumber = (\<lambda>fs. Some NaN),
       ObjectToString = (\<lambda>fs. Some ''[object Object]'') \<rparr>"

text \<open>
  \<^verbatim>\<open>normalizeLyric(payload, song)\<close>, lines 170 to 197. \<open>now\<close> is what \<^verbatim>\<open>Date.now()\<close>
  returns and \<open>lineOf payload\<close> is \<^verbatim>\<open>const line = payload?.line ?? null\<close>. The body runs in the
  option monad: a \<^verbatim>\<open>TypeError\<close> of a coercion is \<open>None\<close>,
  which is the \<^verbatim>\<open>null\<close> that the \<^verbatim>\<open>catch\<close> returns. \<^verbatim>\<open>Number(x) ?? NaN\<close> is \<^verbatim>\<open>Number(x)\<close>,
  a number being never nullish.
\<close>

definition lineOf :: "jsval \<Rightarrow> jsval" where
  "lineOf payload = coalesce (get payload ''line'') JNull"

definition normalizeLyric :: "runtime \<Rightarrow> jsnum \<Rightarrow> jsval \<Rightarrow> SongInfo option \<Rightarrow> LyricLine option" where
  "normalizeLyric rt now payload sng =
     do {
       idx \<leftarrow> Number rt (coalesce (get payload ''index'') (JNum (Fin (- 1))));
       let line = lineOf payload;
       let txt = coalesce (coalesce (coalesce (get line ''text'') (get line ''lyrics''))
                                    (get line ''text'')) (JStr '''');
       tms \<leftarrow> Number rt (coalesce (coalesce (get line ''timeInMs'') (get line ''time''))
                                         (JNum NaN));
       dur \<leftarrow> Number rt (coalesce (get line ''duration'') (JNum (Fin 0)));
       str \<leftarrow> String' rt (coalesce txt (JStr ''''));
       ts \<leftarrow> Number rt (coalesce (get payload ''timestamp'') (JNum now));
       Some \<lparr> index = (if ge_zero idx then JNum idx else JNull),
               text' = JStr str,
               timeInMs = (if isNaN tms then Fin 0 else tms),
               duration = (if isNaN dur then Fin 0 else dur),
               isSynced = (typeof (get line ''timeInMs'') = ''number'' \<or>
                           typeof (get line ''time'') = ''string''),
               song' = songOf sng,
               timestamp = JNum ts,
               provider = coalesce (get payload ''provider'') JNull,
               romanized = coalesce (get payload ''romanized'') JNull \<rparr>
     }"

section \<open>The hub: state, messages and handlers\<close>

text \<open>
  \<^verbatim>\<open>RepeatMode\<close> and \<^verbatim>\<open>VolumeState\<close> are imported types: the repeat modes are the three of
  the wire protocol, a volume state is \<^verbatim>\<open>{state, isMuted}\<close> as the handlers read it.
  \<^verbatim>\<open>SongInfoEvent\<close> has the three members that the callback compares with.
\<close>

datatype RepeatMode = NONE | ONE | ALL

record VolumeState =
  state :: jsnum
  isMuted :: bool

datatype SongInfoEvent = VideoSrcChanged | PlayOrPaused | TimeChanged

datatype DataTypes =
    PlayerInfo
  | VideoChanged
  | PlayerStateChanged
  | PositionChanged
  | VolumeChanged
  | RepeatChanged
  | ShuffleChanged
  | LyricsChanged

fun DataTypes_value :: "DataTypes \<Rightarrow> string" where
  "DataTypes_value PlayerInfo = ''PLAYER_INFO''"
| "DataTypes_value VideoChanged = ''VIDEO_CHANGED''"
| "DataTypes_value PlayerStateChanged = ''PLAYER_STATE_CHANGED''"
| "DataTypes_value PositionChanged = ''POSITION_CHANGED''"
| "DataTypes_value VolumeChanged = ''VOLUME_CHANGED''"
| "DataTypes_value RepeatChanged = ''REPEAT_CHANGED''"
| "DataTypes_value ShuffleChanged = ''SHUFFLE_CHANGED''"
| "DataTypes_value LyricsChanged = ''LYRICS_CHANGED''"

record PlayerState =
  song :: "SongInfo option"
  isPlaying :: bool
  muted :: bool
  position :: jsnum
  volume :: jsnum
  repeat :: RepeatMode
  shuffle :: bool

text \<open>
  A message is the object handed to \<^verbatim>\<open>JSON.stringify\<close>: its \<^verbatim>\<open>type\<close> and its other
  properties in order. A property whose value is \<^verbatim>\<open>undefined\<close> is not serialized, so it
  is not listed (\<open>opt\<close>).
\<close>

datatype Field =
    Song SongInfo
  | IsPlaying bool
  | Muted bool
  | Position jsnum
  | Volume jsnum
  | Repeat RepeatMode
  | Shuffle bool
  | Lyric LyricLine

record Message =
  mtype :: string
  props :: "Field list"

definition opt :: "('a \<Rightarrow> Field) \<Rightarrow> 'a option \<Rightarrow> Field list" where
  "opt f v = (case v of None \<Rightarrow> [] | Some x \<Rightarrow> [f x])"

text \<open>\<^verbatim>\<open>{...playerState}\<close>\<close>

definition spread :: "PlayerState \<Rightarrow> Field list" where
  "spread p =
     opt Song (song p) @
     [IsPlaying (isPlaying p), Muted (muted p), Position (position p), Volume (volume p),
      Repeat (repeat p), Shuffle (shuffle p)]"

text \<open>
  The variables that \<^verbatim>\<open>register\<close> closes over (lines 47 to 53); \<open>repeat'\<close> and \<open>shuffle'\<close>
  are the variables \<^verbatim>\<open>repeat\<close> and \<^verbatim>\<open>shuffle\<close>. \<^verbatim>\<open>sockets\<close> is a \<^verbatim>\<open>Set\<close>, which iterates in
  insertion order: a list without duplicates. \<open>delivered\<close> is not a variable of the
  code: it records, in order, every message that a \<^verbatim>\<open>send\<close> handed to a connection.
  \<^verbatim>\<open>lastLyrics\<close> is only ever assigned \<^verbatim>\<open>undefined\<close> or an object.
\<close>

type_synonym sock = nat

record Hub =
  volumeState :: "VolumeState option"
  repeat' :: RepeatMode
  shuffle' :: bool
  lastSongInfo :: "SongInfo option"
  lastLyrics :: "LyricLine option"
  sockets :: "sock list"
  delivered :: "(sock \<times> Message) list"

definition init :: Hub where
  "init = \<lparr> volumeState = None, repeat' = NONE, shuffle' = False, lastSongInfo = None,
             lastLyrics = None, sockets = [], delivered = [] \<rparr>"

text \<open>What connection \<open>w\<close> has received, in order.\<close>

definition received :: "sock \<Rightarrow> Hub \<Rightarrow> Message list" where
  "received w s = map snd (filter (\<lambda>d. fst d = w) (delivered s))"

text \<open>
  A handler returns or throws; what it wrote before it threw stays written. \<open>throws w\<close>
  says that \<^verbatim>\<open>send\<close> on connection \<open>w\<close> throws (the transport is not part of the
  repository).
\<close>

datatype outcome = Returned | Threw

definition then_do :: "outcome \<times> Hub \<Rightarrow> (Hub \<Rightarrow> outcome \<times> Hub) \<Rightarrow> outcome \<times> Hub" where
  "then_do r f = (case r of (Threw, s) \<Rightarrow> (Threw, s) | (Returned, s) \<Rightarrow> f s)"

definition ws_send :: "(sock \<Rightarrow> bool) \<Rightarrow> sock \<Rightarrow> Message \<Rightarrow> Hub \<Rightarrow> outcome \<times> Hub" where
  "ws_send throws ws m s =
     (if throws ws then (Threw, s) else (Returned, s\<lparr>delivered := delivered s @ [(ws, m)]\<rparr>))"

text \<open>
  \<^verbatim>\<open>sockets.forEach(f)\<close>: the callback on each member in insertion order; an exception
  of the callback leaves the loop.
\<close>

fun forEach :: "(sock \<Rightarrow> Hub \<Rightarrow> outcome \<times> Hub) \<Rightarrow> sock list \<Rightarrow> Hub \<Rightarrow> outcome \<times> Hub" where
  "forEach f [] s = (Returned, s)"
| "forEach f (x # xs) s = then_do (f x s) (forEach f xs)"

text \<open>\<^verbatim>\<open>send(type, state)\<close>, lines 55 to 59.\<close>

definition send :: "(sock \<Rightarrow> bool) \<Rightarrow> DataTypes \<Rightarrow> Field list \<Rightarrow> Hub \<Rightarrow> outcome \<times> Hub" where
  "send throws type st s =
     forEach (\<lambda>socket. ws_send throws socket \<lparr> mtype = DataTypes_value type, props = st \<rparr>)
       (sockets s) s"

text \<open>\<^verbatim>\<open>createPlayerState\<close>, lines 81 to 99.\<close>

definition createPlayerState ::
  "SongInfo option \<Rightarrow> VolumeState option \<Rightarrow> RepeatMode \<Rightarrow> bool \<Rightarrow> PlayerState" where
  "createPlayerState songInfo volState rep shuf =
     \<lparr> song = songInfo,
       isPlaying = (case songInfo of None \<Rightarrow> False | Some si \<Rightarrow> \<not> (isPaused si = Some True)),
       muted = (case volState of None \<Rightarrow> False | Some v \<Rightarrow> isMuted v),
       position =
         (case songInfo of
            None \<Rightarrow> Fin 0
          | Some si \<Rightarrow> (case elapsedSeconds si of None \<Rightarrow> Fin 0 | Some p \<Rightarrow> p)),
       volume = (case volState of None \<Rightarrow> Fin 100 | Some v \<Rightarrow> state v),
       repeat = rep,
       shuffle = shuf \<rparr>"

text \<open>The full state that a \<^verbatim>\<open>PLAYER_INFO\<close> message is built from (lines 262 to 267).\<close>

definition snapshot :: "Hub \<Rightarrow> PlayerState" where
  "snapshot s = createPlayerState (lastSongInfo s) (volumeState s) (repeat' s) (shuffle' s)"

text \<open>
  The route of the current lyric, lines 102 to 147. \<^verbatim>\<open>await executeJavaScript\<close> resumes
  with the renderer's answer or an exception; the model is the handler from there on,
  which runs to its end without another suspension.
\<close>

datatype awaited = Rejected | Resolved jsval

record Response =
  available :: bool
  lyric :: "LyricLine option"

definition currentLyric :: "awaited \<Rightarrow> Hub \<Rightarrow> Response \<times> Hub" where
  "currentLyric r s =
     (let s' =
        (case r of
           Rejected \<Rightarrow> s
         | Resolved res \<Rightarrow>
             if truthy res
             then s\<lparr>lastLyrics := Some
                    \<lparr> index = get res ''index'',
                      text' = get res ''text'',
                      timeInMs = Fin 0,
                      duration = Fin 0,
                      isSynced = False,
                      song' = songOf (lastSongInfo s),
                      timestamp = get res ''timestamp'',
                      provider = JNull,
                      romanized = coalesce (get res ''romanized'') JNull \<rparr>\<rparr>
             else s)
      in (\<lparr> available = (lastLyrics s' \<noteq> None), lyric = lastLyrics s' \<rparr>, s'))"

text \<open>The callback registered with the song-info provider, lines 149 to 167.\<close>

definition songInfoCallback ::
  "(sock \<Rightarrow> bool) \<Rightarrow> SongInfo \<Rightarrow> SongInfoEvent \<Rightarrow> Hub \<Rightarrow> outcome \<times> Hub" where
  "songInfoCallback throws songInfo event s =
     then_do
       (if event = VideoSrcChanged
        then send throws VideoChanged [Song songInfo, Position (Fin 0)] (s\<lparr>lastLyrics := None\<rparr>)
        else (Returned, s))
       (\<lambda>s. then_do
          (if event = PlayOrPaused
           then send throws PlayerStateChanged
                  (IsPlaying (\<not> (case isPaused songInfo of None \<Rightarrow> True | Some b \<Rightarrow> b)) #
                   opt Position (elapsedSeconds songInfo)) s
           else (Returned, s))
          (\<lambda>s. then_do
             (if event = TimeChanged
              then send throws PositionChanged (opt Position (elapsedSeconds songInfo)) s
              else (Returned, s))
             (\<lambda>s. (Returned, s\<lparr>lastSongInfo := Some songInfo\<rparr>))))"

text \<open>
  The listener of \<^verbatim>\<open>synced-lyrics:current\<close>, lines 199 to 217 (the \<^verbatim>\<open>console.debug\<close> in
  its own \<^verbatim>\<open>try\<close> writes nothing).
\<close>

definition syncedLyricsCurrent ::
  "runtime \<Rightarrow> (sock \<Rightarrow> bool) \<Rightarrow> jsnum \<Rightarrow> jsval \<Rightarrow> Hub \<Rightarrow> outcome \<times> Hub" where
  "syncedLyricsCurrent rt throws now payload s =
     (case normalizeLyric rt now payload (lastSongInfo s) of
        None \<Rightarrow> (Returned, s)
      | Some normalized \<Rightarrow>
          forEach
            (\<lambda>socket. ws_send throws socket
               \<lparr> mtype = DataTypes_value LyricsChanged, props = [Lyric normalized] \<rparr>)
            (sockets s) (s\<lparr>lastLyrics := Some normalized\<rparr>))"

text \<open>The other listeners, lines 219 to 239.\<close>

definition volumeChanged :: "(sock \<Rightarrow> bool) \<Rightarrow> VolumeState \<Rightarrow> Hub \<Rightarrow> outcome \<times> Hub" where
  "volumeChanged throws newVolumeState s =
     send throws VolumeChanged [Volume (state newVolumeState), Muted (isMuted newVolumeState)]
       (s\<lparr>volumeState := Some newVolumeState\<rparr>)"

definition repeatChanged :: "(sock \<Rightarrow> bool) \<Rightarrow> RepeatMode \<Rightarrow> Hub \<Rightarrow> outcome \<times> Hub" where
  "repeatChanged throws mode s = send throws RepeatChanged [Repeat mode] (s\<lparr>repeat' := mode\<rparr>)"

definition seeked :: "(sock \<Rightarrow> bool) \<Rightarrow> jsnum \<Rightarrow> Hub \<Rightarrow> outcome \<times> Hub" where
  "seeked throws t s = send throws PositionChanged [Position t] s"

definition shuffleChanged :: "(sock \<Rightarrow> bool) \<Rightarrow> bool \<Rightarrow> Hub \<Rightarrow> outcome \<times> Hub" where
  "shuffleChanged throws newShuffle s =
     send throws ShuffleChanged [Shuffle newShuffle] (s\<lparr>shuffle' := newShuffle\<rparr>)"

text \<open>The websocket route, lines 253 to 285.\<close>

definition onOpen :: "(sock \<Rightarrow> bool) \<Rightarrow> sock \<Rightarrow> Hub \<Rightarrow> outcome \<times> Hub" where
  "onOpen throws ws s =
     then_do
       (ws_send throws ws
          \<lparr> mtype = DataTypes_value PlayerInfo,
            props = spread (createPlayerState (lastSongInfo s) (volumeState s) (repeat' s)
                               (shuffle' s)) \<rparr>
          (s\<lparr>sockets := (if ws \<in> set (sockets s) then sockets s else sockets s @ [ws])\<rparr>))
       (\<lambda>s. case lastLyrics s of
               Some l \<Rightarrow>
                 ws_send throws ws \<lparr> mtype = DataTypes_value LyricsChanged, props = [Lyric l] \<rparr> s
             | None \<Rightarrow> ws_send throws ws \<lparr> mtype = ''LYRICS_UNAVAILABLE'', props = [] \<rparr> s)"

definition onClose :: "sock \<Rightarrow> Hub \<Rightarrow> outcome \<times> Hub" where
  "onClose ws s = (Returned, s\<lparr>sockets := removeAll ws (sockets s)\<rparr>)"

subsection \<open>Runs of the hub\<close>

text \<open>
  Everything that reaches the hub, one handler at a time (the handlers have no
  suspension point but the \<^verbatim>\<open>await\<close> of the lyric route, modelled at its resumption). An
  exception that leaves a handler does not undo what the handler wrote.
\<close>

datatype Event =
    SongInfoCallback SongInfo SongInfoEvent
  | SyncedLyricsCurrent jsnum jsval
  | VolumeChangedIpc VolumeState
  | RepeatChangedIpc RepeatMode
  | Seeked jsnum
  | ShuffleChangedIpc bool
  | Open sock
  | Close sock
  | CurrentLyricRequest awaited

fun step :: "runtime \<Rightarrow> (sock \<Rightarrow> bool) \<Rightarrow> Hub \<Rightarrow> Event \<Rightarrow> Hub" where
  "step rt throws s (SongInfoCallback songInfo event) = snd (songInfoCallback throws songInfo event s)"
| "step rt throws s (SyncedLyricsCurrent now payload) = snd (syncedLyricsCurrent rt throws now payload s)"
| "step rt throws s (VolumeChangedIpc v) = snd (volumeChanged throws v s)"
| "step rt throws s (RepeatChangedIpc mode) = snd (repeatChanged throws mode s)"
| "step rt throws s (Seeked t) = snd (seeked throws t s)"
| "step rt throws s (ShuffleChangedIpc b) = snd (shuffleChanged throws b s)"
| "step rt throws s (Open ws) = snd (onOpen throws ws s)"
| "step rt throws s (Close ws) = snd (onClose ws s)"
| "step rt throws s (CurrentLyricRequest r) = snd (currentLyric r s)"

text \<open>
  A run: each event comes with the behaviour of the transport while its handler runs.
  \<open>delivers\<close> is the transport on which no send throws.
\<close>

definition run :: "runtime \<Rightarrow> Hub \<Rightarrow> ((sock \<Rightarrow> bool) \<times> Event) list \<Rightarrow> Hub" where
  "run rt s evs = foldl (\<lambda>s te. step rt (fst te) s (snd te)) s evs"

abbreviation delivers :: "sock \<Rightarrow> bool" where
  "delivers \<equiv> \<lambda>w. False"

section \<open>Auxiliary facts\<close>

subsection \<open>Splitting and trimming\<close>

text \<open>
  \<open>split\<close> yields one piece more than there are separators, the pieces hold the other
  code units in order and no separator; \<open>trim\<close> removes white space at both ends and
  nothing else.
\<close>

lemma split_not_Nil: "split sep s \<noteq> []"
  by (induction s) (auto split: list.split)

lemma length_split: "length (split sep s) = Suc (length (filter sep s))"
  by (induction s) (auto split: list.split simp: split_not_Nil)

lemma concat_split: "concat (split sep s) = filter (\<lambda>c. \<not> sep c) s"
  by (induction s) (auto split: list.split)

lemma split_pieces: "list_all (list_all (\<lambda>c. \<not> sep c)) (split sep s)"
  by (induction s) (auto split: list.split)

lemma trim_decomp:
  "\<exists>l r. s = l @ trim s @ r \<and> list_all white_space l \<and> list_all white_space r"
proof -
  let ?l = "takeWhile white_space s"
  let ?m = "dropWhile white_space s"
  let ?r = "rev (takeWhile white_space (rev ?m))"
  have "rev ?m = takeWhile white_space (rev ?m) @ dropWhile white_space (rev ?m)"
    by simp
  then have "?m = rev (dropWhile white_space (rev ?m)) @ ?r"
    by (metis rev_append rev_rev_ident)
  then have "s = ?l @ trim s @ ?r"
    by (metis takeWhile_dropWhile_id trim_def)
  moreover have "list_all white_space ?l"
    by (simp add: list_all_iff) (meson set_takeWhileD)
  moreover have "list_all white_space ?r"
    by (simp add: list_all_iff) (meson set_takeWhileD)
  ultimately show ?thesis by blast
qed

lemma trim_ends:
  assumes "trim s \<noteq> []"
  shows "\<not> white_space (hd (trim s)) \<and> \<not> white_space (last (trim s))"
proof -
  let ?m = "dropWhile white_space s"
  let ?d = "dropWhile white_space (rev ?m)"
  have t: "trim s = rev ?d" by (simp add: trim_def)
  with assms have d: "?d \<noteq> []" by simp
  then have "\<not> white_space (hd ?d)" by (rule hd_dropWhile)
  with d t have l: "\<not> white_space (last (trim s))" by (simp add: last_rev)
  from d have "rev ?m \<noteq> []" by (metis dropWhile.simps(1))
  then have m: "?m \<noteq> []" by simp
  then have hm: "\<not> white_space (hd ?m)" by (rule hd_dropWhile)
  have "\<exists>r. ?m = trim s @ r"
    by (metis t rev_append rev_rev_ident takeWhile_dropWhile_id)
  then obtain r where "?m = trim s @ r" ..
  with assms have "hd ?m = hd (trim s)" by (metis hd_append2)
  with hm l show ?thesis by simp
qed

subsection \<open>The normalizer\<close>

lemma normalizeLyric_Some:
  assumes "normalizeLyric rt now payload sng = Some l"
  obtains idx tms dur str ts where
    "Number rt (coalesce (get payload ''index'') (JNum (Fin (- 1)))) = Some idx"
    "Number rt (coalesce (coalesce (get (lineOf payload) ''timeInMs'') (get (lineOf payload) ''time'')) (JNum NaN)) = Some tms"
    "Number rt (coalesce (get (lineOf payload) ''duration'') (JNum (Fin 0))) = Some dur"
    "String' rt (coalesce (coalesce (coalesce (coalesce (get (lineOf payload) ''text'') (get (lineOf payload) ''lyrics''))
                                    (get (lineOf payload) ''text'')) (JStr '''')) (JStr '''')) = Some str"
    "Number rt (coalesce (get payload ''timestamp'') (JNum now)) = Some ts"
    "l = \<lparr> index = (if ge_zero idx then JNum idx else JNull),
               text' = JStr str,
               timeInMs = (if isNaN tms then Fin 0 else tms),
               duration = (if isNaN dur then Fin 0 else dur),
               isSynced = (typeof (get (lineOf payload) ''timeInMs'') = ''number'' \<or>
                           typeof (get (lineOf payload) ''time'') = ''string''),
               song' = songOf sng,
               timestamp = JNum ts,
               provider = coalesce (get payload ''provider'') JNull,
               romanized = coalesce (get payload ''romanized'') JNull \<rparr>"
  using assms unfolding normalizeLyric_def Let_def
  by (auto split: bind_splits)

lemma get_nullish [simp]: "nullish v \<Longrightarrow> get v k = JUndefined"
  by (cases v) simp_all

lemma lineOf_missing: "nullish (get payload ''line'') \<Longrightarrow> lineOf payload = JNull"
  by (simp add: lineOf_def coalesce_def)


lemma normalizeLyric_None_iff:
  "normalizeLyric rt now payload sng = None \<longleftrightarrow>
     Number rt (coalesce (get payload ''index'') (JNum (Fin (- 1)))) = None \<or>
     Number rt (coalesce (coalesce (get (lineOf payload) ''timeInMs'') (get (lineOf payload) ''time''))
                  (JNum NaN)) = None \<or>
     Number rt (coalesce (get (lineOf payload) ''duration'') (JNum (Fin 0))) = None \<or>
     String' rt (coalesce (coalesce (coalesce (coalesce (get (lineOf payload) ''text'')
                    (get (lineOf payload) ''lyrics'')) (get (lineOf payload) ''text'')) (JStr ''''))
                  (JStr '''')) = None \<or>
     Number rt (coalesce (get payload ''timestamp'') (JNum now)) = None"
  unfolding normalizeLyric_def Let_def
  by (auto split: bind_splits)

subsection \<open>Fan-out and the effect of each handler\<close>

lemma forEach_ws_send:
  "forEach (\<lambda>x. ws_send throws x m) xs s =
     (if \<exists>x\<in>set xs. throws x then Threw else Returned,
      s\<lparr>delivered := delivered s @ map (\<lambda>x. (x, m)) (takeWhile (\<lambda>x. \<not> throws x) xs)\<rparr>)"
  by (induction xs arbitrary: s) (simp_all add: then_do_def ws_send_def)

lemma send_eq:
  "send throws type st s =
     (if \<exists>x\<in>set (sockets s). throws x then Threw else Returned,
      s\<lparr>delivered := delivered s @
           map (\<lambda>x. (x, \<lparr> mtype = DataTypes_value type, props = st \<rparr>))
             (takeWhile (\<lambda>x. \<not> throws x) (sockets s))\<rparr>)"
  by (simp add: send_def forEach_ws_send)

lemma snd_send:
  "snd (send throws type st s) =
      s\<lparr>delivered := delivered s @
           map (\<lambda>x. (x, \<lparr> mtype = DataTypes_value type, props = st \<rparr>))
             (takeWhile (\<lambda>x. \<not> throws x) (sockets s))\<rparr>"
  by (simp add: send_eq)

lemma songInfoCallback_vars:
  "volumeState (snd (songInfoCallback throws si ev s)) = volumeState s"
  "repeat' (snd (songInfoCallback throws si ev s)) = repeat' s"
  "shuffle' (snd (songInfoCallback throws si ev s)) = shuffle' s"
  "sockets (snd (songInfoCallback throws si ev s)) = sockets s"
  "lastLyrics (snd (songInfoCallback throws si ev s)) = (if ev = VideoSrcChanged then None else lastLyrics s)"
  "\<exists>later. delivered (snd (songInfoCallback throws si ev s)) = delivered s @ later"
  by (cases ev; simp add: songInfoCallback_def send_eq then_do_def)+

lemma syncedLyricsCurrent_vars:
  "volumeState (snd (syncedLyricsCurrent rt throws now p s)) = volumeState s"
  "repeat' (snd (syncedLyricsCurrent rt throws now p s)) = repeat' s"
  "shuffle' (snd (syncedLyricsCurrent rt throws now p s)) = shuffle' s"
  "sockets (snd (syncedLyricsCurrent rt throws now p s)) = sockets s"
  "lastSongInfo (snd (syncedLyricsCurrent rt throws now p s)) = lastSongInfo s"
  "\<exists>later. delivered (snd (syncedLyricsCurrent rt throws now p s)) = delivered s @ later"
  by (simp_all add: syncedLyricsCurrent_def forEach_ws_send split: option.split)

lemma onOpen_vars:
  "volumeState (snd (onOpen throws ws s)) = volumeState s"
  "repeat' (snd (onOpen throws ws s)) = repeat' s"
  "shuffle' (snd (onOpen throws ws s)) = shuffle' s"
  "lastSongInfo (snd (onOpen throws ws s)) = lastSongInfo s"
  "lastLyrics (snd (onOpen throws ws s)) = lastLyrics s"
  "\<exists>later. delivered (snd (onOpen throws ws s)) = delivered s @ later"
  by (simp_all add: onOpen_def ws_send_def then_do_def split: option.split)

lemma currentLyric_vars:
  "volumeState (snd (currentLyric r s)) = volumeState s"
  "repeat' (snd (currentLyric r s)) = repeat' s"
  "shuffle' (snd (currentLyric r s)) = shuffle' s"
  "lastSongInfo (snd (currentLyric r s)) = lastSongInfo s"
  "sockets (snd (currentLyric r s)) = sockets s"
  "delivered (snd (currentLyric r s)) = delivered s"
  by (simp_all add: currentLyric_def Let_def split: awaited.split)

subsection \<open>Runs\<close>


lemma run_Cons: "run rt s ((th, e) # evs) = run rt (step rt th s e) evs"
  by (simp add: run_def)




lemma step_volumeState:
  "\<forall>v. e \<noteq> VolumeChangedIpc v \<Longrightarrow> volumeState (step rt throws s e) = volumeState s"
  by (cases e)
     (auto simp add: songInfoCallback_vars syncedLyricsCurrent_vars onOpen_vars currentLyric_vars repeatChanged_def seeked_def shuffleChanged_def onClose_def snd_send)

lemma step_repeat:
  "\<forall>m. e \<noteq> RepeatChangedIpc m \<Longrightarrow> repeat' (step rt throws s e) = repeat' s"
  by (cases e)
     (auto simp add: songInfoCallback_vars syncedLyricsCurrent_vars onOpen_vars currentLyric_vars volumeChanged_def seeked_def shuffleChanged_def onClose_def snd_send)

lemma step_shuffle:
  "\<forall>b. e \<noteq> ShuffleChangedIpc b \<Longrightarrow> shuffle' (step rt throws s e) = shuffle' s"
  by (cases e)
     (auto simp add: songInfoCallback_vars syncedLyricsCurrent_vars onOpen_vars currentLyric_vars volumeChanged_def repeatChanged_def seeked_def onClose_def snd_send)

lemma step_lastSongInfo:
  "\<forall>si ev. e \<noteq> SongInfoCallback si ev \<Longrightarrow> lastSongInfo (step rt throws s e) = lastSongInfo s"
  by (cases e)
     (auto simp add: syncedLyricsCurrent_vars onOpen_vars currentLyric_vars volumeChanged_def repeatChanged_def seeked_def shuffleChanged_def onClose_def snd_send)

lemma run_volumeState:
  "\<forall>th v. (th, VolumeChangedIpc v) \<notin> set evs \<Longrightarrow> volumeState (run rt s evs) = volumeState s"
proof (induction evs arbitrary: s)
  case Nil
  show ?case by (simp add: run_def)
next
  case (Cons te evs)
  obtain th e where te: "te = (th, e)" by (cases te)
  from Cons.prems te have "\<forall>v. e \<noteq> VolumeChangedIpc v" by auto
  then have "volumeState (step rt th s e) = volumeState s" by (rule step_volumeState)
  moreover from Cons.prems have "\<forall>th v. (th, VolumeChangedIpc v) \<notin> set evs" by auto
  ultimately show ?case using Cons.IH te by (simp add: run_Cons)
qed

lemma run_repeat:
  "\<forall>th m. (th, RepeatChangedIpc m) \<notin> set evs \<Longrightarrow> repeat' (run rt s evs) = repeat' s"
proof (induction evs arbitrary: s)
  case Nil
  show ?case by (simp add: run_def)
next
  case (Cons te evs)
  obtain th e where te: "te = (th, e)" by (cases te)
  from Cons.prems te have "\<forall>m. e \<noteq> RepeatChangedIpc m" by auto
  then have "repeat' (step rt th s e) = repeat' s" by (rule step_repeat)
  moreover from Cons.prems have "\<forall>th m. (th, RepeatChangedIpc m) \<notin> set evs" by auto
  ultimately show ?case using Cons.IH te by (simp add: run_Cons)
qed

lemma run_shuffle:
  "\<forall>th b. (th, ShuffleChangedIpc b) \<notin> set evs \<Longrightarrow> shuffle' (run rt s evs) = shuffle' s"
proof (induction evs arbitrary: s)
  case Nil
  show ?case by (simp add: run_def)
next
  case (Cons te evs)
  obtain th e where te: "te = (th, e)" by (cases te)
  from Cons.prems te have "\<forall>b. e \<noteq> ShuffleChangedIpc b" by auto
  then have "shuffle' (step rt th s e) = shuffle' s" by (rule step_shuffle)
  moreover from Cons.prems have "\<forall>th b. (th, ShuffleChangedIpc b) \<notin> set evs" by auto
  ultimately show ?case using Cons.IH te by (simp add: run_Cons)
qed

lemma run_lastSongInfo:
  "\<forall>th si ev. (th, SongInfoCallback si ev) \<notin> set evs \<Longrightarrow> lastSongInfo (run rt s evs) = lastSongInfo s"
proof (induction evs arbitrary: s)
  case Nil
  show ?case by (simp add: run_def)
next
  case (Cons te evs)
  obtain th e where te: "te = (th, e)" by (cases te)
  from Cons.prems te have "\<forall>si ev. e \<noteq> SongInfoCallback si ev" by auto
  then have "lastSongInfo (step rt th s e) = lastSongInfo s" by (rule step_lastSongInfo)
  moreover from Cons.prems have "\<forall>th si ev. (th, SongInfoCallback si ev) \<notin> set evs" by auto
  ultimately show ?case using Cons.IH te by (simp add: run_Cons)
qed







section \<open>The claims\<close>

subsection \<open>C1\<close>

text \<open>
  C1, amended. The code has no handling of a failed send. The fan-out of \<^verbatim>\<open>send\<close>, and
  the fan-out of a normalized lyric line (lines 214 to 216), visit the registry in
  insertion order and stop at the first connection whose send throws: the connections
  before it have received the message, that connection and the ones after it have not,
  the exception leaves the handler, and the registry is unchanged, so the failing
  connection stays in it. When no send throws, every live connection receives the
  message once, in registry order.
\<close>

theorem send_fan_out:
  "send throws type st s =
     (if \<exists>x\<in>set (sockets s). throws x then Threw else Returned,
      s\<lparr>delivered := delivered s @
           map (\<lambda>x. (x, \<lparr> mtype = DataTypes_value type, props = st \<rparr>))
             (takeWhile (\<lambda>x. \<not> throws x) (sockets s))\<rparr>) \<and>
   sockets (snd (send throws type st s)) = sockets s \<and>
   ((\<forall>x\<in>set (sockets s). \<not> throws x) \<longrightarrow>
      delivered (snd (send throws type st s)) =
        delivered s @ map (\<lambda>x. (x, \<lparr> mtype = DataTypes_value type, props = st \<rparr>)) (sockets s)) \<and>
   (\<forall>n. normalizeLyric rt now payload (lastSongInfo s) = Some n \<longrightarrow>
      syncedLyricsCurrent rt throws now payload s =
        (if \<exists>x\<in>set (sockets s). throws x then Threw else Returned,
         s\<lparr>lastLyrics := Some n,
           delivered := delivered s @
             map (\<lambda>x. (x, \<lparr> mtype = ''LYRICS_CHANGED'', props = [Lyric n] \<rparr>))
               (takeWhile (\<lambda>x. \<not> throws x) (sockets s))\<rparr>))"
proof (intro conjI impI allI)
  show "send throws type st s =
     (if \<exists>x\<in>set (sockets s). throws x then Threw else Returned,
      s\<lparr>delivered := delivered s @
           map (\<lambda>x. (x, \<lparr> mtype = DataTypes_value type, props = st \<rparr>))
             (takeWhile (\<lambda>x. \<not> throws x) (sockets s))\<rparr>)"
    by (rule send_eq)
  show "sockets (snd (send throws type st s)) = sockets s"
    by (simp add: snd_send)
next
  assume "\<forall>x\<in>set (sockets s). \<not> throws x"
  then have tw: "takeWhile (\<lambda>x. \<not> throws x) (sockets s) = sockets s"
    by (simp add: takeWhile_eq_all_conv)
  show "delivered (snd (send throws type st s)) =
        delivered s @ map (\<lambda>x. (x, \<lparr> mtype = DataTypes_value type, props = st \<rparr>)) (sockets s)"
    unfolding snd_send tw by simp
next
  fix n assume "normalizeLyric rt now payload (lastSongInfo s) = Some n"
  then show "syncedLyricsCurrent rt throws now payload s =
        (if \<exists>x\<in>set (sockets s). throws x then Threw else Returned,
         s\<lparr>lastLyrics := Some n,
           delivered := delivered s @
             map (\<lambda>x. (x, \<lparr> mtype = ''LYRICS_CHANGED'', props = [Lyric n] \<rparr>))
               (takeWhile (\<lambda>x. \<not> throws x) (sockets s))\<rparr>)"
    by (simp add: syncedLyricsCurrent_def forEach_ws_send)
qed

theorem send_fan_out_witness:
  "send (\<lambda>w. w = 2) VolumeChanged [Volume (Fin 42), Muted True] (init\<lparr>sockets := [1, 2, 3]\<rparr>) =
     (Threw, init\<lparr>sockets := [1, 2, 3],
                  delivered := [(1, \<lparr> mtype = ''VOLUME_CHANGED'', props = [Volume (Fin 42), Muted True] \<rparr>)]\<rparr>) \<and>
   send delivers VolumeChanged [Volume (Fin 42), Muted True] (init\<lparr>sockets := [1, 2]\<rparr>) =
     (Returned, init\<lparr>sockets := [1, 2],
                  delivered := [(1, \<lparr> mtype = ''VOLUME_CHANGED'', props = [Volume (Fin 42), Muted True] \<rparr>),
                                (2, \<lparr> mtype = ''VOLUME_CHANGED'', props = [Volume (Fin 42), Muted True] \<rparr>)]\<rparr>) \<and>
   map fst (delivered (snd (syncedLyricsCurrent sample_runtime (\<lambda>w. w = 2) (Fin 1000)
              (JObj [(''line'', JObj [(''text'', JStr ''la la'')])])
              (init\<lparr>sockets := [1, 2, 3]\<rparr>)))) = [1]"
proof -
  have h: "normalizeLyric sample_runtime (Fin 1000)
             (JObj [(''line'', JObj [(''text'', JStr ''la la'')])])
             (lastSongInfo (init\<lparr>sockets := [1, 2, 3]\<rparr>)) =
           Some \<lparr> index = JNull, text' = JStr ''la la'', timeInMs = Fin 0, duration = Fin 0,
                  isSynced = False, song' = None, timestamp = JNum (Fin 1000), provider = JNull,
                  romanized = JNull \<rparr>"
    by (simp add: normalizeLyric_def lineOf_def coalesce_def isNaN_def songOf_def init_def)
  from h
    send_fan_out [of "\<lambda>w. w = 2" VolumeChanged "[Volume (Fin 42), Muted True]"
                     "init\<lparr>sockets := [1, 2, 3]\<rparr>" sample_runtime "Fin 1000"
                     "JObj [(''line'', JObj [(''text'', JStr ''la la'')])]"]
    send_fan_out [of delivers VolumeChanged "[Volume (Fin 42), Muted True]"
                     "init\<lparr>sockets := [1, 2]\<rparr>" sample_runtime "Fin 1000" JUndefined]
  show ?thesis
    by (simp add: init_def)
qed

text \<open>
  C1 as stated fails: connections 1 and 2 are open, the send on 1 throws during the
  fan-out of a volume event; 2 receives no \<^verbatim>\<open>VOLUME_CHANGED\<close> and 1 is still registered.
\<close>

theorem send_failure_counterexample:
  "map mtype (received 2 (run sample_runtime init [(delivers, Open 1), (delivers, Open 2)])) =
     [''PLAYER_INFO'', ''LYRICS_UNAVAILABLE''] \<and>
   map mtype (received 2 (run sample_runtime init
     [(delivers, Open 1), (delivers, Open 2),
      (\<lambda>w. w = 1, VolumeChangedIpc \<lparr> state = Fin 42, isMuted = True \<rparr>)])) =
     [''PLAYER_INFO'', ''LYRICS_UNAVAILABLE''] \<and>
   sockets (run sample_runtime init
     [(delivers, Open 1), (delivers, Open 2),
      (\<lambda>w. w = 1, VolumeChangedIpc \<lparr> state = Fin 42, isMuted = True \<rparr>)]) = [1, 2]"
  by (simp add: run_def onOpen_def ws_send_def then_do_def init_def volumeChanged_def send_def
        received_def)

subsection \<open>C2\<close>

text \<open>
  C2, amended. The route asks the renderer on every call, whether or not a lyric update
  has been pushed. A failure of that refresh is swallowed, as is an empty answer: the
  route then returns the stored lyric snapshot unchanged, as \<^verbatim>\<open>{available, lyric}\<close>, and
  writes nothing. An answer that is truthy replaces the stored snapshot by a line built
  from it, and that line is what the route returns.
\<close>

theorem currentLyric_refresh:
  "currentLyric Rejected s = (\<lparr> available = (lastLyrics s \<noteq> None), lyric = lastLyrics s \<rparr>, s) \<and>
   (\<not> truthy res \<longrightarrow>
      currentLyric (Resolved res) s =
        (\<lparr> available = (lastLyrics s \<noteq> None), lyric = lastLyrics s \<rparr>, s)) \<and>
   (truthy res \<longrightarrow>
      fst (currentLyric (Resolved res) s) =
        \<lparr> available = True,
          lyric = Some \<lparr> index = get res ''index'', text' = get res ''text'', timeInMs = Fin 0,
                         duration = Fin 0, isSynced = False, song' = songOf (lastSongInfo s),
                         timestamp = get res ''timestamp'', provider = JNull,
                         romanized = coalesce (get res ''romanized'') JNull \<rparr> \<rparr> \<and>
      lastLyrics (snd (currentLyric (Resolved res) s)) = lyric (fst (currentLyric (Resolved res) s)))"
  by (simp add: currentLyric_def)

theorem currentLyric_refresh_witness:
  "currentLyric Rejected (init\<lparr>lastLyrics := None\<rparr>) =
     (\<lparr> available = False, lyric = None \<rparr>, init\<lparr>lastLyrics := None\<rparr>) \<and>
   \<not> truthy JNull \<and>
   currentLyric (Resolved JNull) init = (\<lparr> available = False, lyric = None \<rparr>, init) \<and>
   truthy (JObj [(''index'', JNull), (''text'', JStr ''la la''), (''romanized'', JNull),
                 (''timestamp'', JNum (Fin 1000))]) \<and>
   fst (currentLyric (Resolved (JObj [(''index'', JNull), (''text'', JStr ''la la''),
                                      (''romanized'', JNull), (''timestamp'', JNum (Fin 1000))])) init) =
     \<lparr> available = True,
       lyric = Some \<lparr> index = JNull, text' = JStr ''la la'', timeInMs = Fin 0, duration = Fin 0,
                      isSynced = False, song' = None, timestamp = JNum (Fin 1000),
                      provider = JNull, romanized = JNull \<rparr> \<rparr>"
  using currentLyric_refresh [of "init\<lparr>lastLyrics := None\<rparr>" JNull]
        currentLyric_refresh [of init JNull]
        currentLyric_refresh [of init "JObj [(''index'', JNull), (''text'', JStr ''la la''),
                                      (''romanized'', JNull), (''timestamp'', JNum (Fin 1000))]"]
  by (simp add: init_def songOf_def coalesce_def)

text \<open>
  C2 as stated fails: after a pushed lyric update (text \<^verbatim>\<open>pushed\<close>) the route still uses the
  renderer's answer and returns the line \<^verbatim>\<open>scraped\<close>, not the pushed snapshot.
\<close>

theorem currentLyric_refresh_counterexample:
  "map_option text' (lastLyrics (run sample_runtime init
     [(delivers, SyncedLyricsCurrent (Fin 1000)
        (JObj [(''index'', JNum (Fin 3)), (''line'', JObj [(''text'', JStr ''pushed'')])]))])) =
     Some (JStr ''pushed'') \<and>
   map_option text' (lyric (fst (currentLyric
     (Resolved (JObj [(''index'', JNull), (''text'', JStr ''scraped''), (''romanized'', JNull),
                      (''timestamp'', JNum (Fin 2000))]))
     (run sample_runtime init
        [(delivers, SyncedLyricsCurrent (Fin 1000)
           (JObj [(''index'', JNum (Fin 3)), (''line'', JObj [(''text'', JStr ''pushed'')])]))])))) =
     Some (JStr ''scraped'')"
  by (simp add: run_def init_def currentLyric_def syncedLyricsCurrent_def normalizeLyric_def
        lineOf_def coalesce_def)

subsection \<open>C3\<close>




subsection \<open>C4\<close>




subsection \<open>C5\<close>

text \<open>
  C5, amended. Each missing (or null) field is defaulted on its own. A payload without
  \<^verbatim>\<open>index\<close>, \<^verbatim>\<open>line\<close> and \<^verbatim>\<open>timestamp\<close> is normalized, without an exception, to a line with
  \<^verbatim>\<open>index = null\<close>, \<^verbatim>\<open>text = ""\<close>, \<^verbatim>\<open>timeInMs = 0\<close>, \<^verbatim>\<open>duration = 0\<close> and the ingest time as
  timestamp. Whenever normalization yields a line: a missing \<^verbatim>\<open>index\<close> gives
  \<^verbatim>\<open>index = null\<close>; a missing \<^verbatim>\<open>line\<close> gives \<^verbatim>\<open>text = ""\<close>, \<^verbatim>\<open>timeInMs = 0\<close>, \<^verbatim>\<open>duration = 0\<close>
  and \<^verbatim>\<open>isSynced = false\<close>; a missing \<^verbatim>\<open>timestamp\<close> gives the ingest time. A field that is
  present is normalized from its value.
\<close>

theorem normalizeLyric_missing_fields:
  "(nullish (get payload ''index'') \<and> nullish (get payload ''line'') \<and> nullish (get payload ''timestamp'')
      \<longrightarrow> (\<exists>l. normalizeLyric rt now payload sng = Some l \<and> index l = JNull \<and> text' l = JStr [] \<and>
                timeInMs l = Fin 0 \<and> duration l = Fin 0 \<and> timestamp l = JNum now)) \<and>
   (\<forall>l. normalizeLyric rt now payload sng = Some l \<longrightarrow>
      (nullish (get payload ''index'') \<longrightarrow> index l = JNull) \<and>
      (nullish (get payload ''line'') \<longrightarrow>
         text' l = JStr [] \<and> timeInMs l = Fin 0 \<and> duration l = Fin 0 \<and> \<not> isSynced l) \<and>
      (nullish (get payload ''timestamp'') \<longrightarrow> timestamp l = JNum now))"
proof (intro conjI impI allI)
  assume "nullish (get payload ''index'') \<and> nullish (get payload ''line'') \<and> nullish (get payload ''timestamp'')"
  then show "\<exists>l. normalizeLyric rt now payload sng = Some l \<and> index l = JNull \<and> text' l = JStr [] \<and>
                timeInMs l = Fin 0 \<and> duration l = Fin 0 \<and> timestamp l = JNum now"
    by (simp add: normalizeLyric_def lineOf_missing coalesce_def isNaN_def)
next
  fix l assume "normalizeLyric rt now payload sng = Some l" "nullish (get payload ''index'')"
  then show "index l = JNull"
    by (elim normalizeLyric_Some) (auto simp: coalesce_def)
next
  fix l assume a: "normalizeLyric rt now payload sng = Some l" "nullish (get payload ''line'')"
  from a show "text' l = JStr []"
    by (elim normalizeLyric_Some) (auto simp: coalesce_def lineOf_missing)
  from a show "timeInMs l = Fin 0"
    by (elim normalizeLyric_Some) (auto simp: coalesce_def lineOf_missing isNaN_def)
  from a show "duration l = Fin 0"
    by (elim normalizeLyric_Some) (auto simp: coalesce_def lineOf_missing isNaN_def)
  from a show "\<not> isSynced l"
    by (elim normalizeLyric_Some) (auto simp: coalesce_def lineOf_missing isNaN_def)
next
  fix l assume "normalizeLyric rt now payload sng = Some l" "nullish (get payload ''timestamp'')"
  then show "timestamp l = JNum now"
    by (elim normalizeLyric_Some) (auto simp: coalesce_def)
qed

theorem normalizeLyric_missing_fields_witness:
  "nullish (get (JObj [(''provider'', JStr ''LRCLib'')]) ''index'') \<and>
   nullish (get (JObj [(''provider'', JStr ''LRCLib'')]) ''line'') \<and>
   nullish (get (JObj [(''provider'', JStr ''LRCLib'')]) ''timestamp'') \<and>
   normalizeLyric sample_runtime (Fin 1000) (JObj [(''provider'', JStr ''LRCLib'')]) None =
     Some \<lparr> index = JNull, text' = JStr [], timeInMs = Fin 0, duration = Fin 0,
            isSynced = False, song' = None, timestamp = JNum (Fin 1000),
            provider = JStr ''LRCLib'', romanized = JNull \<rparr>"
  using normalizeLyric_missing_fields [of "JObj [(''provider'', JStr ''LRCLib'')]" sample_runtime "Fin 1000" None]
  by (simp add: normalizeLyric_def lineOf_def coalesce_def isNaN_def songOf_def)

text \<open>
  C5 as stated fails: a payload that misses only \<^verbatim>\<open>timestamp\<close> keeps its index, text,
  time and duration.
\<close>

theorem normalizeLyric_missing_fields_counterexample:
  "get (JObj [(''index'', JNum (Fin 3)),
              (''line'', JObj [(''text'', JStr ''hi''), (''timeInMs'', JNum (Fin 1500)),
                               (''duration'', JNum (Fin 200))])]) ''timestamp'' = JUndefined \<and>
   normalizeLyric sample_runtime (Fin 1000)
     (JObj [(''index'', JNum (Fin 3)),
            (''line'', JObj [(''text'', JStr ''hi''), (''timeInMs'', JNum (Fin 1500)),
                             (''duration'', JNum (Fin 200))])]) None =
     Some \<lparr> index = JNum (Fin 3), text' = JStr ''hi'', timeInMs = Fin 1500, duration = Fin 200,
            isSynced = True, song' = None, timestamp = JNum (Fin 1000), provider = JNull,
            romanized = JNull \<rparr>"
  by (simp add: normalizeLyric_def lineOf_def coalesce_def isNaN_def songOf_def)

subsection \<open>C6\<close>

text \<open>
  C6, amended. A seek event with seconds \<open>t\<close> fans out \<^verbatim>\<open>POSITION_CHANGED\<close> with
  \<^verbatim>\<open>{position: t}\<close> and writes no variable of the hub: the player state that a
  \<^verbatim>\<open>PLAYER_INFO\<close> is built from is the same after the event as before it, its position
  being the elapsed seconds of the last song info (or 0).
\<close>

theorem seeked_broadcast_only:
  "snd (seeked throws t s) =
     s\<lparr>delivered := delivered s @
          map (\<lambda>x. (x, \<lparr> mtype = ''POSITION_CHANGED'', props = [Position t] \<rparr>))
            (takeWhile (\<lambda>x. \<not> throws x) (sockets s))\<rparr> \<and>
   snapshot (snd (seeked throws t s)) = snapshot s"
  by (simp add: seeked_def snd_send snapshot_def)

theorem seeked_broadcast_only_witness:
  "snd (seeked (\<lambda>w. False) (Fin 42) (init\<lparr>sockets := [1, 2]\<rparr>)) =
     init\<lparr>sockets := [1, 2],
          delivered := [(1, \<lparr> mtype = ''POSITION_CHANGED'', props = [Position (Fin 42)] \<rparr>),
                        (2, \<lparr> mtype = ''POSITION_CHANGED'', props = [Position (Fin 42)] \<rparr>)]\<rparr> \<and>
   position (snapshot (snd (seeked (\<lambda>w. False) (Fin 42) (init\<lparr>sockets := [1, 2]\<rparr>)))) = Fin 0"
  using seeked_broadcast_only [of "\<lambda>w. False" "Fin 42" "init\<lparr>sockets := [1, 2]\<rparr>"]
  by (simp add: init_def snapshot_def createPlayerState_def)

text \<open>
  C6 as stated fails: after a song info with 10 elapsed seconds and a seek to 42, the
  player state reports position 10.
\<close>

theorem seeked_counterexample:
  "position (snapshot (run sample_runtime init
     [(delivers, SongInfoCallback \<lparr> title = ''T'', artist = ''A'', videoId = ''v'',
                                     isPaused = Some False, elapsedSeconds = Some (Fin 10) \<rparr>
                   TimeChanged),
      (delivers, Seeked (Fin 42))])) = Fin 10"
  by (simp add: run_def songInfoCallback_def seeked_def send_def then_do_def init_def snapshot_def
        createPlayerState_def)

subsection \<open>C7\<close>

text \<open>
  C7. Whenever normalization yields a line, its \<^verbatim>\<open>isSynced\<close> is true exactly when the raw
  line object's \<^verbatim>\<open>timeInMs\<close> is of type number or its \<^verbatim>\<open>time\<close> is of type string; with
  neither field it is false. The millisecond value that normalization produced plays no
  part (the example has a string \<^verbatim>\<open>time\<close> that is no number: synced, with \<^verbatim>\<open>timeInMs = 0\<close>).
\<close>

theorem isSynced_iff:
  assumes "normalizeLyric rt now payload sng = Some l"
  shows "(isSynced l \<longleftrightarrow>
            typeof (get (lineOf payload) ''timeInMs'') = ''number'' \<or>
            typeof (get (lineOf payload) ''time'') = ''string'') \<and>
         (get (lineOf payload) ''timeInMs'' = JUndefined \<and> get (lineOf payload) ''time'' = JUndefined
            \<longrightarrow> \<not> isSynced l)"
proof -
  from assms obtain idx tms dur str ts where
    "isSynced l = (typeof (get (lineOf payload) ''timeInMs'') = ''number'' \<or>
                   typeof (get (lineOf payload) ''time'') = ''string'')"
    by (rule normalizeLyric_Some) simp
  then show ?thesis by auto
qed

theorem isSynced_iff_witness:
  "normalizeLyric sample_runtime (Fin 1000)
     (JObj [(''index'', JNum (Fin 0)), (''line'', JObj [(''text'', JStr ''la la'')]),
            (''timestamp'', JNum (Fin 5))]) None =
     Some \<lparr> index = JNum (Fin 0), text' = JStr ''la la'', timeInMs = Fin 0, duration = Fin 0,
            isSynced = False, song' = None, timestamp = JNum (Fin 5), provider = JNull,
            romanized = JNull \<rparr> \<and>
   normalizeLyric sample_runtime (Fin 1000)
     (JObj [(''line'', JObj [(''text'', JStr ''la''), (''time'', JStr ''1:23'')])]) None =
     Some \<lparr> index = JNull, text' = JStr ''la'', timeInMs = Fin 0, duration = Fin 0,
            isSynced = True, song' = None, timestamp = JNum (Fin 1000), provider = JNull,
            romanized = JNull \<rparr>"
proof -
  have h1: "normalizeLyric sample_runtime (Fin 1000)
     (JObj [(''index'', JNum (Fin 0)), (''line'', JObj [(''text'', JStr ''la la'')]),
            (''timestamp'', JNum (Fin 5))]) None =
     Some \<lparr> index = JNum (Fin 0), text' = JStr ''la la'', timeInMs = Fin 0, duration = Fin 0,
            isSynced = False, song' = None, timestamp = JNum (Fin 5), provider = JNull,
            romanized = JNull \<rparr>"
    by (simp add: normalizeLyric_def lineOf_def coalesce_def isNaN_def songOf_def sample_runtime_def)
  have h2: "normalizeLyric sample_runtime (Fin 1000)
     (JObj [(''line'', JObj [(''text'', JStr ''la''), (''time'', JStr ''1:23'')])]) None =
     Some \<lparr> index = JNull, text' = JStr ''la'', timeInMs = Fin 0, duration = Fin 0,
            isSynced = True, song' = None, timestamp = JNum (Fin 1000), provider = JNull,
            romanized = JNull \<rparr>"
    by (simp add: normalizeLyric_def lineOf_def coalesce_def isNaN_def songOf_def sample_runtime_def
          white_space_def)
  from isSynced_iff [OF h1] isSynced_iff [OF h2] h1 h2 show ?thesis by simp
qed

subsection \<open>C8\<close>

text \<open>
  C8. The player state that \<^verbatim>\<open>PLAYER_INFO\<close> is built from, and the properties that the
  message spreads, are these, for every state of the hub: the song is the last song
  info; \<^verbatim>\<open>isPlaying\<close> holds exactly when that song is present and not paused; \<^verbatim>\<open>muted\<close> and
  \<^verbatim>\<open>volume\<close> are those of the last volume state, false and 100 without one; \<^verbatim>\<open>position\<close> is
  the elapsed seconds of the song, 0 without them; \<^verbatim>\<open>repeat\<close> and \<^verbatim>\<open>shuffle\<close> are the hub's
  variables. From the initial hub, after any events of which none is a volume event it
  has \<^verbatim>\<open>muted = false\<close> and \<^verbatim>\<open>volume = 100\<close>; none a song-info callback, \<^verbatim>\<open>position = 0\<close>;
  none a repeat event, \<^verbatim>\<open>repeat = NONE\<close>; none a shuffle event, \<^verbatim>\<open>shuffle = false\<close>.
\<close>

theorem player_info_defaults:
  "snapshot s =
     \<lparr> song = lastSongInfo s,
       isPlaying = (\<exists>si. lastSongInfo s = Some si \<and> isPaused si \<noteq> Some True),
       muted = (case volumeState s of None \<Rightarrow> False | Some v \<Rightarrow> isMuted v),
       position = (case lastSongInfo s of
                     None \<Rightarrow> Fin 0
                   | Some si \<Rightarrow> (case elapsedSeconds si of None \<Rightarrow> Fin 0 | Some p \<Rightarrow> p)),
       volume = (case volumeState s of None \<Rightarrow> Fin 100 | Some v \<Rightarrow> state v),
       repeat = repeat' s,
       shuffle = shuffle' s \<rparr> \<and>
   spread (snapshot s) =
     (case lastSongInfo s of None \<Rightarrow> [] | Some si \<Rightarrow> [Song si]) @
     [IsPlaying (\<exists>si. lastSongInfo s = Some si \<and> isPaused si \<noteq> Some True),
      Muted (muted (snapshot s)), Position (position (snapshot s)), Volume (volume (snapshot s)),
      Repeat (repeat' s), Shuffle (shuffle' s)] \<and>
   (isPlaying (snapshot s) \<longleftrightarrow> (\<exists>si. song (snapshot s) = Some si \<and> isPaused si \<noteq> Some True)) \<and>
   ((\<forall>th v. (th, VolumeChangedIpc v) \<notin> set evs) \<longrightarrow>
      muted (snapshot (run rt init evs)) = False \<and>
      volume (snapshot (run rt init evs)) = Fin 100) \<and>
   ((\<forall>th si ev. (th, SongInfoCallback si ev) \<notin> set evs) \<longrightarrow>
      position (snapshot (run rt init evs)) = Fin 0) \<and>
   ((\<forall>th m. (th, RepeatChangedIpc m) \<notin> set evs) \<longrightarrow> repeat (snapshot (run rt init evs)) = NONE) \<and>
   ((\<forall>th b. (th, ShuffleChangedIpc b) \<notin> set evs) \<longrightarrow> shuffle (snapshot (run rt init evs)) = False)"
proof (intro conjI impI)
  show "snapshot s =
     \<lparr> song = lastSongInfo s,
       isPlaying = (\<exists>si. lastSongInfo s = Some si \<and> isPaused si \<noteq> Some True),
       muted = (case volumeState s of None \<Rightarrow> False | Some v \<Rightarrow> isMuted v),
       position = (case lastSongInfo s of
                     None \<Rightarrow> Fin 0
                   | Some si \<Rightarrow> (case elapsedSeconds si of None \<Rightarrow> Fin 0 | Some p \<Rightarrow> p)),
       volume = (case volumeState s of None \<Rightarrow> Fin 100 | Some v \<Rightarrow> state v),
       repeat = repeat' s,
       shuffle = shuffle' s \<rparr>"
    by (simp add: snapshot_def createPlayerState_def split: option.split)
  show "spread (snapshot s) =
     (case lastSongInfo s of None \<Rightarrow> [] | Some si \<Rightarrow> [Song si]) @
     [IsPlaying (\<exists>si. lastSongInfo s = Some si \<and> isPaused si \<noteq> Some True),
      Muted (muted (snapshot s)), Position (position (snapshot s)), Volume (volume (snapshot s)),
      Repeat (repeat' s), Shuffle (shuffle' s)]"
    by (simp add: spread_def opt_def snapshot_def createPlayerState_def split: option.split)
  show "isPlaying (snapshot s) \<longleftrightarrow> (\<exists>si. song (snapshot s) = Some si \<and> isPaused si \<noteq> Some True)"
    by (simp add: snapshot_def createPlayerState_def split: option.split)
next
  assume "\<forall>th v. (th, VolumeChangedIpc v) \<notin> set evs"
  then have "volumeState (run rt init evs) = volumeState init"
    by (rule run_volumeState)
  then have v: "volumeState (run rt init evs) = None"
    by (simp add: init_def)
  from v show "muted (snapshot (run rt init evs)) = False"
    by (simp add: snapshot_def createPlayerState_def)
  from v show "volume (snapshot (run rt init evs)) = Fin 100"
    by (simp add: snapshot_def createPlayerState_def)
next
  assume "\<forall>th si ev. (th, SongInfoCallback si ev) \<notin> set evs"
  then have "lastSongInfo (run rt init evs) = lastSongInfo init"
    by (rule run_lastSongInfo)
  then show "position (snapshot (run rt init evs)) = Fin 0"
    by (simp add: snapshot_def createPlayerState_def init_def)
next
  assume "\<forall>th m. (th, RepeatChangedIpc m) \<notin> set evs"
  then have "repeat' (run rt init evs) = repeat' init"
    by (rule run_repeat)
  then show "repeat (snapshot (run rt init evs)) = NONE"
    by (simp add: snapshot_def createPlayerState_def init_def)
next
  assume "\<forall>th b. (th, ShuffleChangedIpc b) \<notin> set evs"
  then have "shuffle' (run rt init evs) = shuffle' init"
    by (rule run_shuffle)
  then show "shuffle (snapshot (run rt init evs)) = False"
    by (simp add: snapshot_def createPlayerState_def init_def)
qed

theorem player_info_defaults_witness:
  "snapshot (run sample_runtime init
     [(delivers, SongInfoCallback \<lparr> title = ''T'', artist = ''A'', videoId = ''v'',
                                     isPaused = Some False, elapsedSeconds = Some (Fin 10) \<rparr>
                   PlayOrPaused),
      (delivers, Seeked (Fin 42))]) =
     \<lparr> song = Some \<lparr> title = ''T'', artist = ''A'', videoId = ''v'', isPaused = Some False,
                     elapsedSeconds = Some (Fin 10) \<rparr>,
       isPlaying = True, muted = False, position = Fin 10, volume = Fin 100, repeat = NONE,
       shuffle = False \<rparr> \<and>
   \<not> isPlaying (snapshot (run sample_runtime init
     [(delivers, SongInfoCallback \<lparr> title = ''T'', artist = ''A'', videoId = ''v'',
                                     isPaused = Some True, elapsedSeconds = Some (Fin 10) \<rparr>
                   PlayOrPaused)])) \<and>
   snapshot (run sample_runtime init
     [(delivers, VolumeChangedIpc \<lparr> state = Fin 42, isMuted = True \<rparr>),
      (delivers, RepeatChangedIpc ONE), (delivers, ShuffleChangedIpc True)]) =
     \<lparr> song = None, isPlaying = False, muted = True, position = Fin 0, volume = Fin 42,
       repeat = ONE, shuffle = True \<rparr>"
  using player_info_defaults
          [where rt = sample_runtime
             and s = "run sample_runtime init
               [(delivers, SongInfoCallback \<lparr> title = ''T'', artist = ''A'', videoId = ''v'',
                                     isPaused = Some False, elapsedSeconds = Some (Fin 10) \<rparr>
                   PlayOrPaused),
                (delivers, Seeked (Fin 42))]"
             and evs = "[(delivers, SongInfoCallback \<lparr> title = ''T'', artist = ''A'', videoId = ''v'',
                                     isPaused = Some False, elapsedSeconds = Some (Fin 10) \<rparr>
                   PlayOrPaused),
                (delivers, Seeked (Fin 42))]"]
        player_info_defaults
          [where rt = sample_runtime
             and s = "run sample_runtime init
               [(delivers, SongInfoCallback \<lparr> title = ''T'', artist = ''A'', videoId = ''v'',
                                     isPaused = Some True, elapsedSeconds = Some (Fin 10) \<rparr>
                   PlayOrPaused)]"
             and evs = "[(delivers, VolumeChangedIpc \<lparr> state = Fin 42, isMuted = True \<rparr>),
                (delivers, RepeatChangedIpc ONE), (delivers, ShuffleChangedIpc True)]"]
  by (simp add: run_def init_def songInfoCallback_def seeked_def send_def then_do_def
        volumeChanged_def repeatChanged_def shuffleChanged_def snapshot_def createPlayerState_def)

subsection \<open>C9\<close>

text \<open>
  C9. Whenever normalization with a current song yields a line, the line's song has the
  title and video id of the current song as they are, and for the artist string
  \<^verbatim>\<open>A & B, C\<close> its artists are \<^verbatim>\<open>A\<close>, \<^verbatim>\<open>B\<close>, \<^verbatim>\<open>C\<close> in this order; in general, for an
  artist string that is not empty, the pieces between \<^verbatim>\<open>&\<close> and \<^verbatim>\<open>,\<close>, each trimmed.
\<close>

theorem normalizeLyric_artists:
  assumes "normalizeLyric rt now payload (Some si) = Some l"
  shows "(artist si = ''A & B, C'' \<longrightarrow>
            song' l = Some \<lparr> title' = title si, artists = [''A'', ''B'', ''C''], videoId' = videoId si \<rparr>) \<and>
         (artist si \<noteq> [] \<longrightarrow>
            song' l = Some \<lparr> title' = title si, artists = map trim (split amp_or_comma (artist si)), videoId' = videoId si \<rparr>)"
proof -
  from assms have s: "song' l = songOf (Some si)"
    by (rule normalizeLyric_Some) simp
  have "map trim (split amp_or_comma ''A & B, C'') = [''A'', ''B'', ''C'']"
    by (simp add: trim_def amp_or_comma_def white_space_def)
  with s show ?thesis by (auto simp: songOf_def)
qed

theorem normalizeLyric_artists_witness:
  "normalizeLyric sample_runtime (Fin 1000) JUndefined
     (Some \<lparr> title = ''T'', artist = ''A & B, C'', videoId = ''v'', isPaused = None,
             elapsedSeconds = None \<rparr>) =
     Some \<lparr> index = JNull, text' = JStr [], timeInMs = Fin 0, duration = Fin 0,
            isSynced = False,
            song' = Some \<lparr> title' = ''T'', artists = [''A'', ''B'', ''C''], videoId' = ''v'' \<rparr>,
            timestamp = JNum (Fin 1000), provider = JNull, romanized = JNull \<rparr>"
proof -
  let ?si = "\<lparr> title = ''T'', artist = ''A & B, C'', videoId = ''v'', isPaused = None,
             elapsedSeconds = None \<rparr>"
  have "\<exists>l. normalizeLyric sample_runtime (Fin 1000) JUndefined (Some ?si) = Some l"
    by (simp add: normalizeLyric_def lineOf_def coalesce_def)
  then obtain l where h: "normalizeLyric sample_runtime (Fin 1000) JUndefined (Some ?si) = Some l" ..
  from normalizeLyric_artists [OF h] have "song' l = Some \<lparr> title' = ''T'', artists = [''A'', ''B'', ''C''], videoId' = ''v'' \<rparr>"
    by simp
  with h show ?thesis
    by (auto simp add: normalizeLyric_def lineOf_def coalesce_def isNaN_def)
qed

subsection \<open>C10\<close>

text \<open>
  C10. What the current-lyric route returns has \<^verbatim>\<open>available = true\<close> exactly when its
  \<^verbatim>\<open>lyric\<close> is not null, for every answer of the renderer and every state of the hub.
\<close>

theorem currentLyric_available_iff:
  "available (fst (currentLyric r s)) \<longleftrightarrow> lyric (fst (currentLyric r s)) \<noteq> None"
  by (cases r) (simp_all add: currentLyric_def)

theorem currentLyric_available_iff_witness:
  "\<not> available (fst (currentLyric Rejected init)) \<and>
   lyric (fst (currentLyric Rejected init)) = None \<and>
   available (fst (currentLyric (Resolved (JBool True)) init)) \<and>
   lyric (fst (currentLyric (Resolved (JBool True)) init)) \<noteq> None"
  using currentLyric_available_iff [of Rejected init]
        currentLyric_available_iff [of "Resolved (JBool True)" init]
  by (simp add: currentLyric_def init_def)

end
